theory Spec2Isabelle
  imports Main
begin

section \<open>Python values exchanged with the game process\<close>

text \<open>
  The tool handlers of \<^verbatim>\<open>load_manager_tools.py\<close> and \<^verbatim>\<open>log_tools.py\<close> receive a
  dictionary of arguments decoded from JSON and a response whose result is again decoded
  JSON. Such a value is \<^verbatim>\<open>None\<close>, a \<^verbatim>\<open>bool\<close>, an \<^verbatim>\<open>int\<close> (unbounded), a
  \<^verbatim>\<open>str\<close>, a \<^verbatim>\<open>list\<close> or a \<^verbatim>\<open>dict\<close> with string keys. A dictionary keeps its
  insertion order, which \<^verbatim>\<open>json.dumps\<close> and \<^verbatim>\<open>str\<close> show, so it is an association
  list, read with \<open>map_of\<close>. Floating-point numbers are left out of the embedding.

  A \<^verbatim>\<open>str\<close> is given by its UTF-8 encoding, one \<open>char\<close> per byte: concatenation,
  emptiness, prefixes and substrings are those of the Python string.
\<close>

datatype py =
    PNone
  | PBool bool
  | PInt int
  | PStr string
  | PList "py list"
  | PDict "(string \<times> py) list"

type_synonym dict = "(string \<times> py) list"

fun is_dict :: "py \<Rightarrow> bool" where
  "is_dict (PDict d) = True"
| "is_dict v = False"

text \<open>The name of the value's class, as Python's error messages print it.\<close>

fun type_name :: "py \<Rightarrow> string" where
  "type_name PNone = ''NoneType''"
| "type_name (PBool b) = ''bool''"
| "type_name (PInt i) = ''int''"
| "type_name (PStr s) = ''str''"
| "type_name (PList xs) = ''list''"
| "type_name (PDict d) = ''dict''"

text \<open>Truth-value testing, as \<^verbatim>\<open>if x:\<close> does it.\<close>

fun truthy :: "py \<Rightarrow> bool" where
  "truthy PNone = False"
| "truthy (PBool b) = b"
| "truthy (PInt i) = (i \<noteq> 0)"
| "truthy (PStr s) = (s \<noteq> [])"
| "truthy (PList xs) = (xs \<noteq> [])"
| "truthy (PDict d) = (d \<noteq> [])"

text \<open>\<^verbatim>\<open>d.get(k, default)\<close> and \<^verbatim>\<open>k in d\<close> on a dictionary.\<close>

definition dict_get :: "dict \<Rightarrow> string \<Rightarrow> py \<Rightarrow> py" where
  "dict_get d k dflt = (case map_of d k of None \<Rightarrow> dflt | Some v \<Rightarrow> v)"

definition dict_contains :: "string \<Rightarrow> dict \<Rightarrow> bool" where
  "dict_contains k d = (case map_of d k of None \<Rightarrow> False | Some v \<Rightarrow> True)"

text \<open>\<^verbatim>\<open>d[k] = v\<close>: an existing key keeps its place, a new key goes to the end.\<close>

fun dict_set :: "dict \<Rightarrow> string \<Rightarrow> py \<Rightarrow> dict" where
  "dict_set [] k v = [(k, v)]"
| "dict_set ((k', v') # d) k v = (if k' = k then (k, v) # d else (k', v') # dict_set d k v)"

section \<open>Text rendering\<close>

definition newline :: string where
  "newline = [CHR 0x0A]"

text \<open>\<^verbatim>\<open>sep.join(parts)\<close>.\<close>

fun join :: "string \<Rightarrow> string list \<Rightarrow> string" where
  "join sep [] = []"
| "join sep [x] = x"
| "join sep (x # y # ys) = x @ sep @ join sep (y # ys)"

text \<open>Decimal rendering of an \<^verbatim>\<open>int\<close>.\<close>

definition digit_char :: "nat \<Rightarrow> char" where
  "digit_char n = ''0123456789'' ! (n mod 10)"

fun show_nat :: "nat \<Rightarrow> string" where
  "show_nat n = (if n < 10 then [digit_char n] else show_nat (n div 10) @ [digit_char n])"

declare show_nat.simps [simp del]

definition show_int :: "int \<Rightarrow> string" where
  "show_int i = (if i < 0 then ''-'' @ show_nat (nat (- i)) else show_nat (nat i))"

text \<open>
  Two encoders of Python's library work on a single string: \<^verbatim>\<open>repr\<close> of a
  \<^verbatim>\<open>str\<close> (quotes chosen by content, escapes decided by the Unicode database) and the
  string encoder of \<^verbatim>\<open>json.dumps\<close> (escapes, \<^verbatim>\<open>\uXXXX\<close> for non-ASCII). The handlers
  only pass values through them, so both are parameters of the rendering functions.
\<close>

record strlib =
  str_repr :: "string \<Rightarrow> string"
  json_string :: "string \<Rightarrow> string"

text \<open>
  An instance for strings of printable ASCII characters without quotes and backslashes,
  where both encoders only add the quotes.
\<close>

definition plain_ascii :: strlib where
  "plain_ascii = \<lparr>str_repr = (\<lambda>s. [CHR 0x27] @ s @ [CHR 0x27]),
                  json_string = (\<lambda>s. [CHR 0x22] @ s @ [CHR 0x22])\<rparr>"

text \<open>\<^verbatim>\<open>repr(v)\<close>; for a list or a dictionary it is also \<^verbatim>\<open>str(v)\<close>.\<close>

fun py_repr :: "strlib \<Rightarrow> py \<Rightarrow> string"
  and repr_items :: "strlib \<Rightarrow> py list \<Rightarrow> string list"
  and repr_members :: "strlib \<Rightarrow> dict \<Rightarrow> string list" where
  "py_repr L PNone = ''None''"
| "py_repr L (PBool b) = (if b then ''True'' else ''False'')"
| "py_repr L (PInt i) = show_int i"
| "py_repr L (PStr s) = str_repr L s"
| "py_repr L (PList xs) = ''['' @ join '', '' (repr_items L xs) @ '']''"
| "py_repr L (PDict d) = ''{'' @ join '', '' (repr_members L d) @ ''}''"
| "repr_items L [] = []"
| "repr_items L (x # xs) = py_repr L x # repr_items L xs"
| "repr_members L [] = []"
| "repr_members L ((k, v) # d) = (str_repr L k @ '': '' @ py_repr L v) # repr_members L d"

text \<open>\<^verbatim>\<open>str(v)\<close>, which is also what \<^verbatim>\<open>f"{v}"\<close> inserts.\<close>

fun py_str :: "strlib \<Rightarrow> py \<Rightarrow> string" where
  "py_str L (PStr s) = s"
| "py_str L v = py_repr L v"

text \<open>
  \<^verbatim>\<open>json.dumps(v, indent=2)\<close>: an empty container on one line, otherwise one item per
  line, indented by two spaces per nesting level, items separated by a comma.
\<close>

definition indent_line :: "nat \<Rightarrow> string" where
  "indent_line level = newline @ replicate (2 * level) CHR '' ''"

fun json_encode :: "strlib \<Rightarrow> nat \<Rightarrow> py \<Rightarrow> string"
  and json_items :: "strlib \<Rightarrow> nat \<Rightarrow> py list \<Rightarrow> string list"
  and json_members :: "strlib \<Rightarrow> nat \<Rightarrow> dict \<Rightarrow> string list" where
  "json_encode L level PNone = ''null''"
| "json_encode L level (PBool b) = (if b then ''true'' else ''false'')"
| "json_encode L level (PInt i) = show_int i"
| "json_encode L level (PStr s) = json_string L s"
| "json_encode L level (PList xs) =
     (if xs = [] then ''[]''
      else ''['' @ indent_line (Suc level)
           @ join ('','' @ indent_line (Suc level)) (json_items L (Suc level) xs)
           @ indent_line level @ '']'')"
| "json_encode L level (PDict d) =
     (if d = [] then ''{}''
      else ''{'' @ indent_line (Suc level)
           @ join ('','' @ indent_line (Suc level)) (json_members L (Suc level) d)
           @ indent_line level @ ''}'')"
| "json_items L level [] = []"
| "json_items L level (x # xs) = json_encode L level x # json_items L level xs"
| "json_members L level [] = []"
| "json_members L level ((k, v) # d) =
     (json_string L k @ '': '' @ json_encode L level v) # json_members L level d"

definition json_dumps :: "strlib \<Rightarrow> py \<Rightarrow> string" where
  "json_dumps L v = json_encode L 0 v"

section \<open>The RPC client, the logger and the handlers' observable behaviour\<close>

text \<open>
  Modelled from the spec: the module \<^verbatim>\<open>tcp_client\<close> with the class \<^verbatim>\<open>TcpClient\<close> and
  its response type is not among the sources. The spec gives the response as
  \<^verbatim>\<open>{result: arbitrary structured value | absent, error: {code: integer, message: string}
  | absent}\<close> and the client as one operation \<^verbatim>\<open>call_with_retry(method_name, params)\<close>
  that returns a response or raises. The handlers read \<^verbatim>\<open>response.error.message\<close> and
  \<^verbatim>\<open>response.error.code\<close> as attributes, so a populated error is an object, which tests
  true; an absent one is \<^verbatim>\<open>None\<close>. An absent result is \<^verbatim>\<open>None\<close>.
\<close>

record RpcError =
  code :: int
  message :: string

record RpcResponse =
  result :: py
  error :: "RpcError option"

text \<open>
  A call either returns a response or raises. An exception is kept as its text
  \<^verbatim>\<open>str(e)\<close>, the only thing the handlers read from it. The exceptions of the model are
  the instances of Python's class \<^verbatim>\<open>Exception\<close>, those that \<^verbatim>\<open>except Exception\<close>
  intercepts.
\<close>

datatype rpc_outcome = Raises string | Returns RpcResponse

type_synonym TcpClient = "string \<Rightarrow> dict \<Rightarrow> rpc_outcome"

text \<open>
  Modelled from the spec: the logger of \<^verbatim>\<open>utils.logger\<close> is not among the sources; it
  accepts leveled text messages and has no effect on control flow. It is modelled by the
  list of the messages it received.
\<close>

datatype log_level = DEBUG | ERROR

type_synonym log_entry = "log_level \<times> string"

datatype TextContent = TextContent (content_type: string) (content_text: string)

text \<open>
  What one invocation of a handler does: the text blocks it returns, the calls of
  \<^verbatim>\<open>call_with_retry\<close> it made (method name and payload) and the messages it logged.
\<close>

record run =
  returned :: "TextContent list"
  rpc_calls :: "(string \<times> dict) list"
  logged :: "log_entry list"

text \<open>
  The \<^verbatim>\<open>try\<close> block of every handler ends in the same \<^verbatim>\<open>except Exception as e\<close>:
  log \<^verbatim>\<open>f"Error in {name}: {e}"\<close> at error level and return one text block
  \<^verbatim>\<open>f"Error: {str(e)}"\<close>. The body's value is \<open>Inl\<close> of the exception text or \<open>Inr\<close>
  of the blocks it returns.
\<close>

definition try_except ::
  "string \<Rightarrow> (string \<times> dict) list \<Rightarrow> log_entry list \<Rightarrow> string + TextContent list \<Rightarrow> run" where
  "try_except name cs ls body =
     (case body of
        Inr blocks \<Rightarrow> \<lparr>returned = blocks, rpc_calls = cs, logged = ls\<rparr>
      | Inl e \<Rightarrow>
          \<lparr>returned = [TextContent ''text'' (''Error: '' @ e)],
           rpc_calls = cs,
           logged = ls @ [(ERROR, ''Error in '' @ name @ '': '' @ e)]\<rparr>)"

text \<open>\<^verbatim>\<open>f"Error: {response.error.message} (code: {response.error.code})"\<close>.\<close>

definition rpc_error_text :: "RpcError \<Rightarrow> string" where
  "rpc_error_text err = ''Error: '' @ message err @ '' (code: '' @ show_int (code err) @ '')''"

section \<open>Save and load tools\<close>

definition check_mark :: string where
  "check_mark = [CHR 0xE2, CHR 0x9C, CHR 0x93]"

definition returned_to_menu_note :: string where
  "returned_to_menu_note =
     newline @ ''  Note: Game was returned to menu before loading the save.''"

text \<open>\<^verbatim>\<open>handle_s1_list_saves\<close>, the statements after the call of the client.\<close>

definition list_saves_blocks :: "strlib \<Rightarrow> RpcResponse \<Rightarrow> TextContent list" where
  "list_saves_blocks L response =
     (case error response of
        Some err \<Rightarrow> [TextContent ''text'' (rpc_error_text err)]
      | None \<Rightarrow>
          (let result_text = json_dumps L (result response) in
           case result response of
             PDict r \<Rightarrow>
               if dict_contains ''saves'' r then
                 (let save_count = dict_get r ''count'' (PInt 0);
                      summary = ''Found '' @ py_str L save_count @ '' save game(s):''
                                @ newline @ newline @ result_text
                  in [TextContent ''text'' summary])
               else [TextContent ''text'' result_text]
           | v \<Rightarrow> [TextContent ''text'' result_text]))"

definition handle_s1_list_saves :: "strlib \<Rightarrow> dict \<Rightarrow> TcpClient \<Rightarrow> run" where
  "handle_s1_list_saves L arguments tcp_client =
     try_except ''s1_list_saves'' [(''list_saves'', [])] []
       (case tcp_client ''list_saves'' [] of
          Raises e \<Rightarrow> Inl e
        | Returns response \<Rightarrow> Inr (list_saves_blocks L response))"

text \<open>\<^verbatim>\<open>handle_s1_load_save\<close>, the statements after the call of the client.\<close>

definition load_save_blocks :: "strlib \<Rightarrow> RpcResponse \<Rightarrow> TextContent list" where
  "load_save_blocks L response =
     (case error response of
        Some err \<Rightarrow> [TextContent ''text'' (rpc_error_text err)]
      | None \<Rightarrow>
          (case result response of
             PDict r \<Rightarrow>
               (let success = dict_get r ''success'' (PBool False);
                    message = dict_get r ''message'' (PStr []);
                    returned_to_menu = dict_get r ''returned_to_menu'' (PBool False);
                    status_text = check_mark @ '' '' @ py_str L message;
                    status_text = (if truthy returned_to_menu
                                   then status_text @ returned_to_menu_note
                                   else status_text)
                in [TextContent ''text'' status_text])
           | v \<Rightarrow> [TextContent ''text'' (json_dumps L v)]))"

definition handle_s1_load_save :: "strlib \<Rightarrow> dict \<Rightarrow> TcpClient \<Rightarrow> run" where
  "handle_s1_load_save L arguments tcp_client =
     (let slot_index = dict_get arguments ''slot_index'' PNone in
      if slot_index = PNone then
        \<lparr>returned = [TextContent ''text'' ''Error: slot_index parameter is required''],
         rpc_calls = [], logged = []\<rparr>
      else
        try_except ''s1_load_save'' [(''load_save'', [(''slot_index'', slot_index)])] []
          (case tcp_client ''load_save'' [(''slot_index'', slot_index)] of
             Raises e \<Rightarrow> Inl e
           | Returns response \<Rightarrow> Inr (load_save_blocks L response)))"

section \<open>Log capture tool\<close>

subsection \<open>Operations of Python that can raise\<close>

definition squote :: string where
  "squote = [CHR 0x27]"

text \<open>
  The characters of a \<^verbatim>\<open>str\<close>, each as a string of its own: a byte in the range
  \<open>0x80\<close> to \<open>0xBF\<close> continues the UTF-8 sequence of the character before it.
\<close>

definition is_continuation :: "char \<Rightarrow> bool" where
  "is_continuation c = (128 \<le> (of_char c :: nat) \<and> (of_char c :: nat) < 192)"

fun utf8_chars :: "string \<Rightarrow> string list" where
  "utf8_chars [] = []"
| "utf8_chars (c # cs) =
     (case utf8_chars cs of
        [] \<Rightarrow> [[c]]
      | g # gs \<Rightarrow>
          (case g of
             [] \<Rightarrow> [c] # gs
           | b # bs \<Rightarrow> if is_continuation b then (c # g) # gs else [c] # g # gs))"

text \<open>\<^verbatim>\<open>len(v)\<close>: \<^verbatim>\<open>TypeError\<close> for a value without a length.\<close>

fun py_len :: "py \<Rightarrow> string + nat" where
  "py_len (PStr s) = Inr (length (utf8_chars s))"
| "py_len (PList xs) = Inr (length xs)"
| "py_len (PDict d) = Inr (length d)"
| "py_len v = Inl (''object of type '' @ squote @ type_name v @ squote @ '' has no len()'')"

text \<open>
  The values a \<^verbatim>\<open>for\<close> loop over \<open>v\<close> visits: the items of a list, the characters of
  a string, the keys of a dictionary; \<^verbatim>\<open>TypeError\<close> otherwise.
\<close>

fun py_iter :: "py \<Rightarrow> string + py list" where
  "py_iter (PList xs) = Inr xs"
| "py_iter (PStr s) = Inr (map PStr (utf8_chars s))"
| "py_iter (PDict d) = Inr (map (\<lambda>kv. PStr (fst kv)) d)"
| "py_iter v = Inl (squote @ type_name v @ squote @ '' object is not iterable'')"

text \<open>\<^verbatim>\<open>v.get(k, default)\<close>: \<^verbatim>\<open>AttributeError\<close> when \<open>v\<close> is not a dictionary.\<close>

fun method_get :: "py \<Rightarrow> string \<Rightarrow> py \<Rightarrow> string + py" where
  "method_get (PDict d) k dflt = Inr (dict_get d k dflt)"
| "method_get v k dflt =
     Inl (squote @ type_name v @ squote @ '' object has no attribute '' @ squote @ ''get'' @ squote)"

subsection \<open>The handler\<close>

definition warning_sign :: string where
  "warning_sign = [CHR 0xE2, CHR 0x9A, CHR 0xA0, CHR 0xEF, CHR 0xB8, CHR 0x8F]"

definition bar_chart :: string where
  "bar_chart = [CHR 0xF0, CHR 0x9F, CHR 0x93, CHR 0x8A]"

definition bullet :: string where
  "bullet = [CHR 0xE2, CHR 0x80, CHR 0xA2]"

definition magnifier :: string where
  "magnifier = [CHR 0xF0, CHR 0x9F, CHR 0x94, CHR 0x8D]"

definition memo :: string where
  "memo = [CHR 0xF0, CHR 0x9F, CHR 0x93, CHR 0x9D]"

text \<open>\<^verbatim>\<open>if k in arguments: params[k] = arguments[k]\<close>.\<close>

definition copy_param :: "string \<Rightarrow> dict \<Rightarrow> dict \<Rightarrow> dict" where
  "copy_param k arguments params =
     (case map_of arguments k of None \<Rightarrow> params | Some v \<Rightarrow> dict_set params k v)"

definition capture_logs_params :: "dict \<Rightarrow> dict" where
  "capture_logs_params arguments =
     (let params = [];
          params = copy_param ''last_n_lines'' arguments params;
          params = copy_param ''first_n_lines'' arguments params;
          params = copy_param ''keyword'' arguments params;
          params = copy_param ''from_timestamp'' arguments params;
          params = copy_param ''to_timestamp'' arguments params;
          params = copy_param ''include_pattern'' arguments params;
          params = copy_param ''exclude_pattern'' arguments params
      in params)"

text \<open>The parameter names that the handler looks for in the arguments.\<close>

definition capture_logs_keys :: "string set" where
  "capture_logs_keys =
     {''last_n_lines'', ''first_n_lines'', ''keyword'', ''from_timestamp'', ''to_timestamp'',
      ''include_pattern'', ''exclude_pattern''}"

text \<open>The loop over \<^verbatim>\<open>filters_applied\<close>: one bullet per visited value.\<close>

fun append_filters :: "strlib \<Rightarrow> py list \<Rightarrow> string list \<Rightarrow> string list" where
  "append_filters L [] output_lines = output_lines"
| "append_filters L (filter_desc # rest) output_lines =
     append_filters L rest (output_lines @ [''  '' @ bullet @ '' '' @ py_str L filter_desc])"

text \<open>
  The loop over \<^verbatim>\<open>lines\<close>: the first \<^verbatim>\<open>line_obj.get\<close> on a value that is not a
  dictionary raises and ends the loop.
\<close>

fun append_lines :: "strlib \<Rightarrow> py list \<Rightarrow> string list \<Rightarrow> string + string list" where
  "append_lines L [] output_lines = Inr output_lines"
| "append_lines L (line_obj # rest) output_lines =
     (case method_get line_obj ''line_number'' (PStr ''?'') of
        Inl e \<Rightarrow> Inl e
      | Inr line_num \<Rightarrow>
     (case method_get line_obj ''timestamp'' (PStr []) of
        Inl e \<Rightarrow> Inl e
      | Inr timestamp \<Rightarrow>
     (case method_get line_obj ''content'' (PStr []) of
        Inl e \<Rightarrow> Inl e
      | Inr content \<Rightarrow>
          append_lines L rest
            (output_lines @
              [if truthy timestamp
               then ''[Line '' @ py_str L line_num @ ''] ['' @ py_str L timestamp @ ''] ''
                    @ py_str L content
               else ''[Line '' @ py_str L line_num @ ''] '' @ py_str L content]))))"

text \<open>
  The report for a result that is a dictionary: \<open>Inl\<close> of the exception text when
  \<^verbatim>\<open>len(lines)\<close>, one of the two loops or a \<^verbatim>\<open>line_obj.get\<close> raises, otherwise
  \<open>Inr\<close> of \<^verbatim>\<open>"\n".join(output_lines)\<close>.
\<close>

definition capture_logs_report :: "strlib \<Rightarrow> dict \<Rightarrow> string + string" where
  "capture_logs_report L r =
     (let lines = dict_get r ''lines'' (PList []);
          total_lines = dict_get r ''total_lines_in_file'' (PInt 0);
          filtered_count = dict_get r ''filtered_count'' (PInt 0);
          filters_applied = dict_get r ''filters_applied'' (PList []);
          warning = dict_get r ''warning'' PNone;
          output_lines = [];
          output_lines = (if truthy warning
                          then output_lines
                               @ [warning_sign @ '' Warning: '' @ py_str L warning @ newline]
                          else output_lines);
          output_lines = output_lines @ [bar_chart @ '' Log Summary:''];
          output_lines = output_lines
                         @ [''  '' @ bullet @ '' Total lines in file: '' @ py_str L total_lines];
          output_lines = output_lines
                         @ [''  '' @ bullet @ '' Lines after filtering: ''
                            @ py_str L filtered_count]
      in case py_len lines of
           Inl e \<Rightarrow> Inl e
         | Inr n \<Rightarrow>
      (let output_lines = output_lines @ [''  '' @ bullet @ '' Lines returned: '' @ show_nat n]
       in case (if truthy filters_applied
                then (case py_iter filters_applied of
                        Inl e \<Rightarrow> Inl e
                      | Inr fs \<Rightarrow>
                          Inr (append_filters L fs
                                 (output_lines @ [newline @ magnifier @ '' Filters Applied:''])))
                else Inr output_lines) of
            Inl e \<Rightarrow> Inl e
          | Inr output_lines \<Rightarrow>
       (case (if truthy lines
              then (case py_iter lines of
                      Inl e \<Rightarrow> Inl e
                    | Inr ls \<Rightarrow>
                        append_lines L ls
                          (output_lines @ [newline @ memo @ '' Log Lines:'' @ newline]))
              else Inr (output_lines @ [newline @ ''(No log lines matched the filters)''])) of
          Inl e \<Rightarrow> Inl e
        | Inr output_lines \<Rightarrow> Inr (join newline output_lines))))"

text \<open>\<^verbatim>\<open>handle_s1_capture_logs\<close>, the statements after the call of the client.\<close>

definition capture_logs_blocks :: "strlib \<Rightarrow> RpcResponse \<Rightarrow> string + TextContent list" where
  "capture_logs_blocks L response =
     (case error response of
        Some err \<Rightarrow> Inr [TextContent ''text'' (rpc_error_text err)]
      | None \<Rightarrow>
          (case result response of
             PDict r \<Rightarrow>
               (case capture_logs_report L r of
                  Inl e \<Rightarrow> Inl e
                | Inr report \<Rightarrow> Inr [TextContent ''text'' report])
           | v \<Rightarrow> Inr [TextContent ''text'' (py_str L v)]))"

definition handle_s1_capture_logs :: "strlib \<Rightarrow> dict \<Rightarrow> TcpClient \<Rightarrow> run" where
  "handle_s1_capture_logs L arguments tcp_client =
     (let params = capture_logs_params arguments in
      try_except ''s1_capture_logs'' [(''capture_logs'', params)]
        [(DEBUG, ''Capturing logs with params: '' @ py_str L (PDict params))]
        (case tcp_client ''capture_logs'' params of
           Raises e \<Rightarrow> Inl e
         | Returns response \<Rightarrow> capture_logs_blocks L response))"

section \<open>Properties of the handlers\<close>

subsection \<open>Evaluation lemmas\<close>

lemma show_nat_digit: "n < 10 \<Longrightarrow> show_nat n = [digit_char n]"
  by (simp add: show_nat.simps)

lemma show_nat_step: "10 \<le> n \<Longrightarrow> show_nat n = show_nat (n div 10) @ [digit_char n]"
  by (simp add: show_nat.simps)

lemma returned_try_except:
  "returned (try_except name cs ls body) =
     (case body of Inr blocks \<Rightarrow> blocks | Inl e \<Rightarrow> [TextContent ''text'' (''Error: '' @ e)])"
  by (simp add: try_except_def split: sum.split)

lemma rpc_calls_try_except: "rpc_calls (try_except name cs ls body) = cs"
  by (simp add: try_except_def split: sum.split)

lemma logged_try_except:
  "logged (try_except name cs ls body) =
     (case body of Inr blocks \<Rightarrow> ls | Inl e \<Rightarrow> ls @ [(ERROR, ''Error in '' @ name @ '': '' @ e)])"
  by (simp add: try_except_def split: sum.split)

subsection \<open>Validation of the slot index\<close>

text \<open>
  Claim C1. When the arguments of \<^verbatim>\<open>load_save\<close> have no key \<^verbatim>\<open>slot_index\<close>, the handler
  returns exactly one text block with the text
  \<^verbatim>\<open>Error: slot_index parameter is required\<close> and never calls \<^verbatim>\<open>call_with_retry\<close>.
\<close>

theorem load_save_requires_slot_index:
  assumes "map_of arguments ''slot_index'' = None"
  shows "returned (handle_s1_load_save L arguments tcp_client)
           = [TextContent ''text'' ''Error: slot_index parameter is required'']
         \<and> rpc_calls (handle_s1_load_save L arguments tcp_client) = []"
  using assms by (simp add: handle_s1_load_save_def dict_get_def)

theorem load_save_requires_slot_index_witness:
  "map_of [(''slot'', PInt 1)] ''slot_index'' = None
   \<and> returned (handle_s1_load_save plain_ascii [(''slot'', PInt 1)] (\<lambda>m p. Raises ''down''))
       = [TextContent ''text'' ''Error: slot_index parameter is required'']
   \<and> rpc_calls (handle_s1_load_save plain_ascii [(''slot'', PInt 1)] (\<lambda>m p. Raises ''down''))
       = []"
  using load_save_requires_slot_index
    [where arguments = "[(''slot'', PInt 1)]" and L = plain_ascii
       and tcp_client = "\<lambda>m p. Raises ''down''"]
  by simp

subsection \<open>Remote errors and local exceptions\<close>

text \<open>
  Claim C2. When the response that a handler receives from \<^verbatim>\<open>call_with_retry\<close> has a
  populated error with code \<open>c\<close> and message \<open>m\<close>, each of the three handlers returns the
  single text block \<^verbatim>\<open>Error: m (code: c)\<close>, whatever the result field holds: the result
  is not rendered. \<^verbatim>\<open>load_save\<close> receives a response only for arguments with a slot
  index other than \<^verbatim>\<open>None\<close>, since it makes no call otherwise.
\<close>

theorem rpc_error_is_rendered:
  assumes "error response = Some err"
  shows "(tcp_client ''list_saves'' [] = Returns response \<longrightarrow>
            returned (handle_s1_list_saves L arguments tcp_client)
              = [TextContent ''text''
                   (''Error: '' @ message err @ '' (code: '' @ show_int (code err) @ '')'')])
         \<and> (map_of arguments ''slot_index'' = Some slot \<and> slot \<noteq> PNone
              \<and> tcp_client ''load_save'' [(''slot_index'', slot)] = Returns response \<longrightarrow>
            returned (handle_s1_load_save L arguments tcp_client)
              = [TextContent ''text''
                   (''Error: '' @ message err @ '' (code: '' @ show_int (code err) @ '')'')])
         \<and> (tcp_client ''capture_logs'' (capture_logs_params arguments) = Returns response \<longrightarrow>
            returned (handle_s1_capture_logs L arguments tcp_client)
              = [TextContent ''text''
                   (''Error: '' @ message err @ '' (code: '' @ show_int (code err) @ '')'')])"
  using assms
  by (simp add: handle_s1_list_saves_def handle_s1_load_save_def handle_s1_capture_logs_def
      list_saves_blocks_def load_save_blocks_def capture_logs_blocks_def
      returned_try_except rpc_error_text_def dict_get_def Let_def)

theorem rpc_error_is_rendered_witness:
  "error \<lparr>result = PStr ''ignored'', error = Some \<lparr>code = 404, message = ''No such slot''\<rparr>\<rparr>
     = Some \<lparr>code = 404, message = ''No such slot''\<rparr>
   \<and> returned (handle_s1_list_saves plain_ascii [(''slot_index'', PInt 7)]
        (\<lambda>m p. Returns \<lparr>result = PStr ''ignored'',
                          error = Some \<lparr>code = 404, message = ''No such slot''\<rparr>\<rparr>))
       = [TextContent ''text'' ''Error: No such slot (code: 404)'']
   \<and> returned (handle_s1_load_save plain_ascii [(''slot_index'', PInt 7)]
        (\<lambda>m p. Returns \<lparr>result = PStr ''ignored'',
                          error = Some \<lparr>code = 404, message = ''No such slot''\<rparr>\<rparr>))
       = [TextContent ''text'' ''Error: No such slot (code: 404)'']
   \<and> returned (handle_s1_capture_logs plain_ascii [(''slot_index'', PInt 7)]
        (\<lambda>m p. Returns \<lparr>result = PStr ''ignored'',
                          error = Some \<lparr>code = 404, message = ''No such slot''\<rparr>\<rparr>))
       = [TextContent ''text'' ''Error: No such slot (code: 404)'']"
  using rpc_error_is_rendered
    [where response = "\<lparr>result = PStr ''ignored'',
                         error = Some \<lparr>code = 404, message = ''No such slot''\<rparr>\<rparr>"
       and err = "\<lparr>code = 404, message = ''No such slot''\<rparr>"
       and tcp_client = "\<lambda>m p. Returns \<lparr>result = PStr ''ignored'',
                           error = Some \<lparr>code = 404, message = ''No such slot''\<rparr>\<rparr>"
       and arguments = "[(''slot_index'', PInt 7)]" and slot = "PInt 7" and L = plain_ascii]
  by (simp add: show_int_def show_nat_digit show_nat_step digit_char_def)

text \<open>
  Claim C3. When \<^verbatim>\<open>call_with_retry\<close> raises an exception with text \<open>t\<close>, a handler
  returns (it does not raise) the single text block \<^verbatim>\<open>Error: t\<close>, and its log holds
  exactly one message at error level, which names the handler and \<open>t\<close>.
  \<^verbatim>\<open>load_save\<close> makes the call only for arguments with a slot index other than
  \<^verbatim>\<open>None\<close>.
\<close>

theorem rpc_exception_is_caught:
  "(tcp_client ''list_saves'' [] = Raises t \<longrightarrow>
      returned (handle_s1_list_saves L arguments tcp_client) = [TextContent ''text'' (''Error: '' @ t)]
      \<and> filter (\<lambda>entry. fst entry = ERROR) (logged (handle_s1_list_saves L arguments tcp_client))
          = [(ERROR, ''Error in s1_list_saves: '' @ t)])
   \<and> (map_of arguments ''slot_index'' = Some slot \<and> slot \<noteq> PNone
        \<and> tcp_client ''load_save'' [(''slot_index'', slot)] = Raises t \<longrightarrow>
      returned (handle_s1_load_save L arguments tcp_client) = [TextContent ''text'' (''Error: '' @ t)]
      \<and> filter (\<lambda>entry. fst entry = ERROR) (logged (handle_s1_load_save L arguments tcp_client))
          = [(ERROR, ''Error in s1_load_save: '' @ t)])
   \<and> (tcp_client ''capture_logs'' (capture_logs_params arguments) = Raises t \<longrightarrow>
      returned (handle_s1_capture_logs L arguments tcp_client) = [TextContent ''text'' (''Error: '' @ t)]
      \<and> filter (\<lambda>entry. fst entry = ERROR) (logged (handle_s1_capture_logs L arguments tcp_client))
          = [(ERROR, ''Error in s1_capture_logs: '' @ t)])"
  by (simp add: handle_s1_list_saves_def handle_s1_load_save_def handle_s1_capture_logs_def
      returned_try_except logged_try_except dict_get_def Let_def)

theorem rpc_exception_is_caught_witness:
  "returned (handle_s1_list_saves plain_ascii [(''slot_index'', PInt 0)]
       (\<lambda>m p. Raises ''Connection refused''))
     = [TextContent ''text'' ''Error: Connection refused'']
   \<and> logged (handle_s1_list_saves plain_ascii [(''slot_index'', PInt 0)]
       (\<lambda>m p. Raises ''Connection refused''))
     = [(ERROR, ''Error in s1_list_saves: Connection refused'')]
   \<and> returned (handle_s1_load_save plain_ascii [(''slot_index'', PInt 0)]
       (\<lambda>m p. Raises ''Connection refused''))
     = [TextContent ''text'' ''Error: Connection refused'']
   \<and> logged (handle_s1_load_save plain_ascii [(''slot_index'', PInt 0)]
       (\<lambda>m p. Raises ''Connection refused''))
     = [(ERROR, ''Error in s1_load_save: Connection refused'')]
   \<and> returned (handle_s1_capture_logs plain_ascii [(''slot_index'', PInt 0)]
       (\<lambda>m p. Raises ''Connection refused''))
     = [TextContent ''text'' ''Error: Connection refused'']
   \<and> filter (\<lambda>entry. fst entry = ERROR)
       (logged (handle_s1_capture_logs plain_ascii [(''slot_index'', PInt 0)]
          (\<lambda>m p. Raises ''Connection refused'')))
     = [(ERROR, ''Error in s1_capture_logs: Connection refused'')]"
  using rpc_exception_is_caught
    [where tcp_client = "\<lambda>m p. Raises ''Connection refused''" and t = "''Connection refused''"
       and arguments = "[(''slot_index'', PInt 0)]" and slot = "PInt 0" and L = plain_ascii]
  by (simp add: handle_s1_list_saves_def handle_s1_load_save_def logged_try_except dict_get_def)

subsection \<open>The payload of the log capture call\<close>

lemma map_of_dict_set: "map_of (dict_set d k v) = (map_of d)(k \<mapsto> v)"
  by (induction d k v rule: dict_set.induct) auto

lemma keys_dict_set: "fst ` set (dict_set d k v) = insert k (fst ` set d)"
  by (induction d k v rule: dict_set.induct) auto

lemma distinct_dict_set: "distinct (map fst d) \<Longrightarrow> distinct (map fst (dict_set d k v))"
proof (induction d k v rule: dict_set.induct)
  case (1 k v)
  then show ?case by simp
next
  case (2 k' v' d k v)
  then show ?case
    using keys_dict_set [of d k v] by (cases "k' = k") auto
qed

lemma map_of_copy_param:
  "map_of (copy_param k arguments params) =
     (\<lambda>x. if x = k \<and> map_of arguments k \<noteq> None then map_of arguments k else map_of params x)"
  by (auto simp: copy_param_def map_of_dict_set split: option.split)

lemma distinct_copy_param:
  "distinct (map fst params) \<Longrightarrow> distinct (map fst (copy_param k arguments params))"
  by (simp add: copy_param_def distinct_dict_set split: option.split)

lemma map_of_capture_logs_params:
  "map_of (capture_logs_params arguments) = map_of arguments |` capture_logs_keys"
  unfolding capture_logs_params_def Let_def
  by (rule ext) (simp add: map_of_copy_param restrict_map_def capture_logs_keys_def)

lemma distinct_capture_logs_params: "distinct (map fst (capture_logs_params arguments))"
  unfolding capture_logs_params_def Let_def
  by (intro distinct_copy_param) simp

text \<open>
  Claim C4. For every argument mapping, \<^verbatim>\<open>capture_logs\<close> makes one call, of the method
  \<^verbatim>\<open>capture_logs\<close>, and its payload is a dictionary (no key twice) that maps exactly the
  keys among the seven parameter names that the arguments contain, each to the value the
  arguments give it: it is the arguments restricted to the seven names. With no arguments
  the payload is empty, and the arguments \<^verbatim>\<open>{"last_n_lines": 50, "keyword": "error"}\<close>
  are the payload as they are.
\<close>

theorem capture_logs_payload_is_sparse:
  "rpc_calls (handle_s1_capture_logs L arguments tcp_client)
     = [(''capture_logs'', capture_logs_params arguments)]
   \<and> map_of (capture_logs_params arguments) = map_of arguments |` capture_logs_keys
   \<and> distinct (map fst (capture_logs_params arguments))
   \<and> capture_logs_params [] = []
   \<and> capture_logs_params [(''last_n_lines'', PInt 50), (''keyword'', PStr ''error'')]
       = [(''last_n_lines'', PInt 50), (''keyword'', PStr ''error'')]"
proof -
  have "rpc_calls (handle_s1_capture_logs L arguments tcp_client)
          = [(''capture_logs'', capture_logs_params arguments)]"
    by (simp add: handle_s1_capture_logs_def Let_def rpc_calls_try_except)
  moreover have "capture_logs_params [] = []"
    by (simp add: capture_logs_params_def copy_param_def)
  moreover have "capture_logs_params [(''last_n_lines'', PInt 50), (''keyword'', PStr ''error'')]
                   = [(''last_n_lines'', PInt 50), (''keyword'', PStr ''error'')]"
    by (simp add: capture_logs_params_def copy_param_def)
  ultimately show ?thesis
    using map_of_capture_logs_params distinct_capture_logs_params by simp
qed

subsection \<open>Successful responses of the save and load tools\<close>

text \<open>
  Claim C5, as amended. When \<^verbatim>\<open>load_save\<close> receives a response without error whose
  result is a dictionary, it returns one text block: the check mark, a space and the
  \<^verbatim>\<open>message\<close> entry as \<^verbatim>\<open>str\<close> renders it (nothing when the entry is absent),
  followed by the note on the return to the menu exactly when the \<^verbatim>\<open>returned_to_menu\<close>
  entry tests true in Python's sense (it is present and is not \<^verbatim>\<open>None\<close>, \<^verbatim>\<open>False\<close>,
  zero or empty). When the result is not a dictionary, the block is its JSON rendering.
\<close>

theorem load_save_success_text:
  assumes "error response = None"
    and "map_of arguments ''slot_index'' = Some slot" and "slot \<noteq> PNone"
    and "tcp_client ''load_save'' [(''slot_index'', slot)] = Returns response"
  shows "(result response = PDict r \<longrightarrow>
            returned (handle_s1_load_save L arguments tcp_client)
              = [TextContent ''text''
                   (check_mark @ '' ''
                    @ (case map_of r ''message'' of None \<Rightarrow> [] | Some m \<Rightarrow> py_str L m)
                    @ (if truthy (dict_get r ''returned_to_menu'' (PBool False))
                       then returned_to_menu_note else []))])
         \<and> (\<not> is_dict (result response) \<longrightarrow>
            returned (handle_s1_load_save L arguments tcp_client)
              = [TextContent ''text'' (json_dumps L (result response))])"
  using assms
  by (cases "result response")
     (simp_all add: handle_s1_load_save_def load_save_blocks_def returned_try_except
        dict_get_def Let_def split: option.split)

theorem load_save_success_text_witness:
  "returned (handle_s1_load_save plain_ascii [(''slot_index'', PInt 2)]
      (\<lambda>m p. Returns \<lparr>result = PDict [(''success'', PBool True),
                                           (''message'', PStr ''Loaded slot 2''),
                                           (''returned_to_menu'', PBool True)],
                        error = None\<rparr>))
     = [TextContent ''text'' (check_mark @ '' Loaded slot 2'' @ returned_to_menu_note)]
   \<and> returned (handle_s1_load_save plain_ascii [(''slot_index'', PInt 2)]
      (\<lambda>m p. Returns \<lparr>result = PDict [(''success'', PBool True),
                                           (''returned_to_menu'', PBool False)],
                        error = None\<rparr>))
     = [TextContent ''text'' (check_mark @ '' '')]
   \<and> returned (handle_s1_load_save plain_ascii [(''slot_index'', PInt 2)]
      (\<lambda>m p. Returns \<lparr>result = PList [PBool True, PNone], error = None\<rparr>))
     = [TextContent ''text''
          (''['' @ newline @ ''  true,'' @ newline @ ''  null'' @ newline @ '']'')]"
  using
    load_save_success_text
      [where response = "\<lparr>result = PDict [(''success'', PBool True),
                                             (''message'', PStr ''Loaded slot 2''),
                                             (''returned_to_menu'', PBool True)],
                           error = None\<rparr>"
         and r = "[(''success'', PBool True), (''message'', PStr ''Loaded slot 2''),
                   (''returned_to_menu'', PBool True)]"
         and arguments = "[(''slot_index'', PInt 2)]" and slot = "PInt 2" and L = plain_ascii
         and tcp_client = "\<lambda>m p. Returns \<lparr>result = PDict [(''success'', PBool True),
                                             (''message'', PStr ''Loaded slot 2''),
                                             (''returned_to_menu'', PBool True)],
                           error = None\<rparr>"]
    load_save_success_text
      [where response = "\<lparr>result = PDict [(''success'', PBool True),
                                             (''returned_to_menu'', PBool False)],
                           error = None\<rparr>"
         and r = "[(''success'', PBool True), (''returned_to_menu'', PBool False)]"
         and arguments = "[(''slot_index'', PInt 2)]" and slot = "PInt 2" and L = plain_ascii
         and tcp_client = "\<lambda>m p. Returns \<lparr>result = PDict [(''success'', PBool True),
                                             (''returned_to_menu'', PBool False)],
                           error = None\<rparr>"]
    load_save_success_text
      [where response = "\<lparr>result = PList [PBool True, PNone], error = None\<rparr>"
         and arguments = "[(''slot_index'', PInt 2)]" and slot = "PInt 2" and L = plain_ascii
         and tcp_client = "\<lambda>m p. Returns \<lparr>result = PList [PBool True, PNone],
                                                error = None\<rparr>"]
  by (simp add: dict_get_def json_dumps_def indent_line_def numeral_2_eq_2)

text \<open>
  The claim as it was stated has the note if and only if the entry is \<^verbatim>\<open>true\<close>. The
  handler tests \<^verbatim>\<open>if returned_to_menu:\<close>, so the string \<^verbatim>\<open>"no"\<close>, which is not
  \<^verbatim>\<open>true\<close>, brings the note as well.
\<close>

theorem load_save_note_counterexample:
  "dict_get [(''message'', PStr ''Loaded''), (''returned_to_menu'', PStr ''no'')]
       ''returned_to_menu'' (PBool False) \<noteq> PBool True
   \<and> returned (handle_s1_load_save plain_ascii [(''slot_index'', PInt 2)]
        (\<lambda>m p. Returns \<lparr>result = PDict [(''message'', PStr ''Loaded''),
                                             (''returned_to_menu'', PStr ''no'')],
                          error = None\<rparr>))
       = [TextContent ''text'' (check_mark @ '' Loaded'' @ returned_to_menu_note)]"
  by (simp add: handle_s1_load_save_def load_save_blocks_def returned_try_except
        dict_get_def Let_def)

text \<open>
  Claim C6. When \<^verbatim>\<open>list_saves\<close> receives a response without error whose result is a
  dictionary with an entry \<^verbatim>\<open>saves\<close>, it returns one text block: the line
  \<^verbatim>\<open>Found {count} save game(s):\<close>, with the \<^verbatim>\<open>count\<close> entry or 0 when there is none,
  an empty line and the JSON rendering of the whole result. For any other result the
  block is the JSON rendering alone.
\<close>

theorem list_saves_success_text:
  assumes "error response = None"
    and "tcp_client ''list_saves'' [] = Returns response"
  shows "(result response = PDict r \<and> map_of r ''saves'' = Some saves \<longrightarrow>
            returned (handle_s1_list_saves L arguments tcp_client)
              = [TextContent ''text''
                   (''Found '' @ py_str L (dict_get r ''count'' (PInt 0)) @ '' save game(s):''
                    @ newline @ newline @ json_dumps L (result response))])
         \<and> (result response = PDict r \<and> map_of r ''saves'' = None \<longrightarrow>
            returned (handle_s1_list_saves L arguments tcp_client)
              = [TextContent ''text'' (json_dumps L (result response))])
         \<and> (\<not> is_dict (result response) \<longrightarrow>
            returned (handle_s1_list_saves L arguments tcp_client)
              = [TextContent ''text'' (json_dumps L (result response))])"
  using assms
  by (cases "result response")
     (simp_all add: handle_s1_list_saves_def list_saves_blocks_def returned_try_except
        dict_contains_def Let_def)

theorem list_saves_success_text_witness:
  "returned (handle_s1_list_saves plain_ascii []
      (\<lambda>m p. Returns \<lparr>result = PDict [(''saves'', PList []), (''count'', PInt 3)],
                        error = None\<rparr>))
     = [TextContent ''text''
          (''Found 3 save game(s):'' @ newline @ newline
           @ ''{'' @ newline @ ''  '' @ [CHR 0x22] @ ''saves'' @ [CHR 0x22] @ '': [],''
           @ newline @ ''  '' @ [CHR 0x22] @ ''count'' @ [CHR 0x22] @ '': 3'' @ newline @ ''}'')]
   \<and> returned (handle_s1_list_saves plain_ascii []
      (\<lambda>m p. Returns \<lparr>result = PDict [(''saves'', PList [])], error = None\<rparr>))
     = [TextContent ''text''
          (''Found 0 save game(s):'' @ newline @ newline
           @ ''{'' @ newline @ ''  '' @ [CHR 0x22] @ ''saves'' @ [CHR 0x22] @ '': []''
           @ newline @ ''}'')]
   \<and> returned (handle_s1_list_saves plain_ascii []
      (\<lambda>m p. Returns \<lparr>result = PDict [(''count'', PInt 3)], error = None\<rparr>))
     = [TextContent ''text''
          (''{'' @ newline @ ''  '' @ [CHR 0x22] @ ''count'' @ [CHR 0x22] @ '': 3''
           @ newline @ ''}'')]
   \<and> returned (handle_s1_list_saves plain_ascii []
      (\<lambda>m p. Returns \<lparr>result = PNone, error = None\<rparr>))
     = [TextContent ''text'' ''null'']"
  using
    list_saves_success_text
      [where response = "\<lparr>result = PDict [(''saves'', PList []), (''count'', PInt 3)],
                           error = None\<rparr>"
         and r = "[(''saves'', PList []), (''count'', PInt 3)]" and saves = "PList []"
         and arguments = "[]" and L = plain_ascii
         and tcp_client = "\<lambda>m p. Returns \<lparr>result = PDict [(''saves'', PList []),
                                                                 (''count'', PInt 3)],
                                              error = None\<rparr>"]
    list_saves_success_text
      [where response = "\<lparr>result = PDict [(''saves'', PList [])], error = None\<rparr>"
         and r = "[(''saves'', PList [])]" and saves = "PList []"
         and arguments = "[]" and L = plain_ascii
         and tcp_client = "\<lambda>m p. Returns \<lparr>result = PDict [(''saves'', PList [])],
                                              error = None\<rparr>"]
    list_saves_success_text
      [where response = "\<lparr>result = PDict [(''count'', PInt 3)], error = None\<rparr>"
         and r = "[(''count'', PInt 3)]"
         and arguments = "[]" and L = plain_ascii
         and tcp_client = "\<lambda>m p. Returns \<lparr>result = PDict [(''count'', PInt 3)],
                                              error = None\<rparr>"]
    list_saves_success_text
      [where response = "\<lparr>result = PNone, error = None\<rparr>"
         and arguments = "[]" and L = plain_ascii
         and tcp_client = "\<lambda>m p. Returns \<lparr>result = PNone, error = None\<rparr>"]
  by (simp add: dict_get_def json_dumps_def indent_line_def numeral_2_eq_2 plain_ascii_def
        show_int_def show_nat_digit digit_char_def newline_def)

text \<open>
  Claim C9. The text that \<^verbatim>\<open>load_save\<close> returns for a result that is a dictionary does
  not depend on the \<^verbatim>\<open>success\<close> entry: two results that agree on every other key give
  the same output.
\<close>

theorem load_save_ignores_success:
  assumes "\<forall>k. k \<noteq> ''success'' \<longrightarrow> map_of r1 k = map_of r2 k"
  shows "returned (handle_s1_load_save L arguments
                     (\<lambda>m p. Returns \<lparr>result = PDict r1, error = None\<rparr>))
         = returned (handle_s1_load_save L arguments
                     (\<lambda>m p. Returns \<lparr>result = PDict r2, error = None\<rparr>))"
proof -
  have "map_of r1 ''message'' = map_of r2 ''message''"
    and "map_of r1 ''returned_to_menu'' = map_of r2 ''returned_to_menu''"
    using assms by simp_all
  then show ?thesis
    by (simp add: handle_s1_load_save_def load_save_blocks_def returned_try_except
          dict_get_def Let_def)
qed

theorem load_save_ignores_success_witness:
  "returned (handle_s1_load_save plain_ascii [(''slot_index'', PInt 1)]
      (\<lambda>m p. Returns \<lparr>result = PDict [(''success'', PBool False), (''message'', PStr ''Loaded'')],
                        error = None\<rparr>))
   = returned (handle_s1_load_save plain_ascii [(''slot_index'', PInt 1)]
      (\<lambda>m p. Returns \<lparr>result = PDict [(''message'', PStr ''Loaded'')], error = None\<rparr>))"
proof -
  have "\<forall>k. k \<noteq> ''success'' \<longrightarrow>
          map_of [(''success'', PBool False), (''message'', PStr ''Loaded'')] k
          = map_of [(''message'', PStr ''Loaded'')] k"
    by simp
  then show ?thesis
    by (rule load_save_ignores_success)
qed

subsection \<open>Results of the log capture that are not dictionaries\<close>

text \<open>
  Claim C10. When \<^verbatim>\<open>capture_logs\<close> receives a response without error whose result is not
  a dictionary, \<^verbatim>\<open>None\<close> included, it returns exactly one text block, whose text is
  \<^verbatim>\<open>str(result)\<close>: neither the JSON rendering nor the report.
\<close>

theorem capture_logs_plain_result:
  assumes "error response = None" and "\<not> is_dict (result response)"
    and "tcp_client ''capture_logs'' (capture_logs_params arguments) = Returns response"
  shows "returned (handle_s1_capture_logs L arguments tcp_client)
           = [TextContent ''text'' (py_str L (result response))]"
  using assms
  by (cases "result response")
     (simp_all add: handle_s1_capture_logs_def capture_logs_blocks_def returned_try_except Let_def)

theorem capture_logs_plain_result_witness:
  "returned (handle_s1_capture_logs plain_ascii []
      (\<lambda>m p. Returns \<lparr>result = PNone, error = None\<rparr>))
     = [TextContent ''text'' ''None'']
   \<and> py_str plain_ascii PNone \<noteq> json_dumps plain_ascii PNone"
  using capture_logs_plain_result
    [where response = "\<lparr>result = PNone, error = None\<rparr>" and arguments = "[]"
       and L = plain_ascii
       and tcp_client = "\<lambda>m p. Returns \<lparr>result = PNone, error = None\<rparr>"]
  by (simp add: json_dumps_def)

subsection \<open>Every invocation returns a text block\<close>

lemma capture_logs_blocks_nonempty:
  "capture_logs_blocks L response = Inr blocks \<Longrightarrow> blocks \<noteq> []"
  by (auto simp: capture_logs_blocks_def split: option.splits py.splits sum.splits)

text \<open>
  Claim C8. Whatever the arguments are and whatever the client does (it returns a
  response with a result, it returns a response with an error, it raises), each of the
  three handlers returns at least one text block.
\<close>

theorem handlers_return_some_block:
  "returned (handle_s1_list_saves L arguments tcp_client) \<noteq> []
   \<and> returned (handle_s1_load_save L arguments tcp_client) \<noteq> []
   \<and> returned (handle_s1_capture_logs L arguments tcp_client) \<noteq> []"
proof -
  have "returned (handle_s1_list_saves L arguments tcp_client) \<noteq> []"
    by (simp add: handle_s1_list_saves_def list_saves_blocks_def returned_try_except Let_def
          split: rpc_outcome.split option.split py.split)
  moreover have "returned (handle_s1_load_save L arguments tcp_client) \<noteq> []"
    by (simp add: handle_s1_load_save_def load_save_blocks_def returned_try_except Let_def
          split: rpc_outcome.split option.split py.split)
  moreover have "returned (handle_s1_capture_logs L arguments tcp_client) \<noteq> []"
    by (auto simp: handle_s1_capture_logs_def returned_try_except Let_def
          split: rpc_outcome.split sum.split dest: capture_logs_blocks_nonempty)
  ultimately show ?thesis by simp
qed


subsection \<open>The report of the log capture\<close>

lemma append_filters_eq:
  "append_filters L fs output_lines
     = output_lines @ map (\<lambda>f. ''  '' @ bullet @ '' '' @ py_str L f) fs"
  by (induction fs arbitrary: output_lines) simp_all

lemma append_lines_dicts:
  "append_lines L (map PDict ls) output_lines
     = Inr (output_lines @
            map (\<lambda>d. if truthy (dict_get d ''timestamp'' (PStr []))
                      then ''[Line '' @ py_str L (dict_get d ''line_number'' (PStr ''?''))
                           @ ''] ['' @ py_str L (dict_get d ''timestamp'' (PStr [])) @ ''] ''
                           @ py_str L (dict_get d ''content'' (PStr []))
                      else ''[Line '' @ py_str L (dict_get d ''line_number'' (PStr ''?''))
                           @ ''] '' @ py_str L (dict_get d ''content'' (PStr []))) ls)"
  by (induction ls arbitrary: output_lines) simp_all

text \<open>
  Claim C7, as amended. Let \<^verbatim>\<open>capture_logs\<close> receive a response without error whose
  result is a dictionary in which \<^verbatim>\<open>lines\<close>, when present, is a list of dictionaries and
  \<^verbatim>\<open>filters_applied\<close>, when present, is a list. Then the handler returns one text block,
  the lines of which are, in this order and joined by newlines: a warning line when the
  \<^verbatim>\<open>warning\<close> entry tests true (it is present and neither \<^verbatim>\<open>None\<close> nor empty); the
  summary with the total of lines in the file, the count after filtering and the number of
  lines returned; when the list of filters is not empty, a heading and one bullet per
  filter; when the list of lines is not empty, a heading and one line per entry, in the
  order of the list, as \<^verbatim>\<open>[Line n] [timestamp] content\<close> when the entry's timestamp tests
  true and as \<^verbatim>\<open>[Line n] content\<close> otherwise; when the list of lines is empty, the notice
  that no lines matched.
\<close>

theorem capture_logs_report_layout:
  assumes "error response = None" and "result response = PDict r"
    and "tcp_client ''capture_logs'' (capture_logs_params arguments) = Returns response"
    and "dict_get r ''lines'' (PList []) = PList (map PDict ls)"
    and "dict_get r ''filters_applied'' (PList []) = PList fs"
  shows "returned (handle_s1_capture_logs L arguments tcp_client) =
     [TextContent ''text'' (join newline
        ((if truthy (dict_get r ''warning'' PNone)
          then [warning_sign @ '' Warning: '' @ py_str L (dict_get r ''warning'' PNone) @ newline]
          else [])
         @ [bar_chart @ '' Log Summary:'',
            ''  '' @ bullet @ '' Total lines in file: ''
              @ py_str L (dict_get r ''total_lines_in_file'' (PInt 0)),
            ''  '' @ bullet @ '' Lines after filtering: ''
              @ py_str L (dict_get r ''filtered_count'' (PInt 0)),
            ''  '' @ bullet @ '' Lines returned: '' @ show_nat (length ls)]
         @ (if fs = [] then []
            else (newline @ magnifier @ '' Filters Applied:'')
                 # map (\<lambda>f. ''  '' @ bullet @ '' '' @ py_str L f) fs)
         @ (if ls = [] then [newline @ ''(No log lines matched the filters)'']
            else (newline @ memo @ '' Log Lines:'' @ newline)
                 # map (\<lambda>d. if truthy (dict_get d ''timestamp'' (PStr []))
                             then ''[Line '' @ py_str L (dict_get d ''line_number'' (PStr ''?''))
                                  @ ''] ['' @ py_str L (dict_get d ''timestamp'' (PStr []))
                                  @ ''] '' @ py_str L (dict_get d ''content'' (PStr []))
                             else ''[Line '' @ py_str L (dict_get d ''line_number'' (PStr ''?''))
                                  @ ''] '' @ py_str L (dict_get d ''content'' (PStr []))) ls)))]"
proof -
  have report: "capture_logs_report L r = Inr (join newline
        ((if truthy (dict_get r ''warning'' PNone)
          then [warning_sign @ '' Warning: '' @ py_str L (dict_get r ''warning'' PNone) @ newline]
          else [])
         @ [bar_chart @ '' Log Summary:'',
            ''  '' @ bullet @ '' Total lines in file: ''
              @ py_str L (dict_get r ''total_lines_in_file'' (PInt 0)),
            ''  '' @ bullet @ '' Lines after filtering: ''
              @ py_str L (dict_get r ''filtered_count'' (PInt 0)),
            ''  '' @ bullet @ '' Lines returned: '' @ show_nat (length ls)]
         @ (if fs = [] then []
            else (newline @ magnifier @ '' Filters Applied:'')
                 # map (\<lambda>f. ''  '' @ bullet @ '' '' @ py_str L f) fs)
         @ (if ls = [] then [newline @ ''(No log lines matched the filters)'']
            else (newline @ memo @ '' Log Lines:'' @ newline)
                 # map (\<lambda>d. if truthy (dict_get d ''timestamp'' (PStr []))
                             then ''[Line '' @ py_str L (dict_get d ''line_number'' (PStr ''?''))
                                  @ ''] ['' @ py_str L (dict_get d ''timestamp'' (PStr []))
                                  @ ''] '' @ py_str L (dict_get d ''content'' (PStr []))
                             else ''[Line '' @ py_str L (dict_get d ''line_number'' (PStr ''?''))
                                  @ ''] '' @ py_str L (dict_get d ''content'' (PStr []))) ls)))"
    unfolding capture_logs_report_def Let_def assms(4) assms(5)
    by (simp add: append_filters_eq append_lines_dicts)
  show ?thesis
    using assms(1-3)
    by (simp add: handle_s1_capture_logs_def capture_logs_blocks_def returned_try_except
          Let_def report)
qed

theorem capture_logs_report_layout_witness:
  "returned (handle_s1_capture_logs plain_ascii [(''keyword'', PStr ''a'')]
      (\<lambda>m p. Returns
         \<lparr>result = PDict
            [(''warning'', PStr ''Log truncated''),
             (''total_lines_in_file'', PInt 120),
             (''filtered_count'', PInt 2),
             (''filters_applied'', PList [PStr ''keyword: a'']),
             (''lines'', PList
                [PDict [(''line_number'', PInt 12), (''timestamp'', PStr ''12:00:01''),
                        (''content'', PStr ''hi'')],
                 PDict [(''line_number'', PInt 13), (''content'', PStr ''x'')]])],
          error = None\<rparr>))
     = [TextContent ''text'' (join newline
          [warning_sign @ '' Warning: Log truncated'' @ newline,
           bar_chart @ '' Log Summary:'',
           ''  '' @ bullet @ '' Total lines in file: 120'',
           ''  '' @ bullet @ '' Lines after filtering: 2'',
           ''  '' @ bullet @ '' Lines returned: 2'',
           newline @ magnifier @ '' Filters Applied:'',
           ''  '' @ bullet @ '' keyword: a'',
           newline @ memo @ '' Log Lines:'' @ newline,
           ''[Line 12] [12:00:01] hi'',
           ''[Line 13] x''])]
   \<and> returned (handle_s1_capture_logs plain_ascii []
      (\<lambda>m p. Returns \<lparr>result = PDict [(''total_lines_in_file'', PInt 7)], error = None\<rparr>))
     = [TextContent ''text'' (join newline
          [bar_chart @ '' Log Summary:'',
           ''  '' @ bullet @ '' Total lines in file: 7'',
           ''  '' @ bullet @ '' Lines after filtering: 0'',
           ''  '' @ bullet @ '' Lines returned: 0'',
           newline @ ''(No log lines matched the filters)''])]"
  using
    capture_logs_report_layout
      [where response = "\<lparr>result = PDict
            [(''warning'', PStr ''Log truncated''),
             (''total_lines_in_file'', PInt 120),
             (''filtered_count'', PInt 2),
             (''filters_applied'', PList [PStr ''keyword: a'']),
             (''lines'', PList
                [PDict [(''line_number'', PInt 12), (''timestamp'', PStr ''12:00:01''),
                        (''content'', PStr ''hi'')],
                 PDict [(''line_number'', PInt 13), (''content'', PStr ''x'')]])],
          error = None\<rparr>"
         and r = "[(''warning'', PStr ''Log truncated''),
             (''total_lines_in_file'', PInt 120),
             (''filtered_count'', PInt 2),
             (''filters_applied'', PList [PStr ''keyword: a'']),
             (''lines'', PList
                [PDict [(''line_number'', PInt 12), (''timestamp'', PStr ''12:00:01''),
                        (''content'', PStr ''hi'')],
                 PDict [(''line_number'', PInt 13), (''content'', PStr ''x'')]])]"
         and ls = "[[(''line_number'', PInt 12), (''timestamp'', PStr ''12:00:01''),
                     (''content'', PStr ''hi'')],
                    [(''line_number'', PInt 13), (''content'', PStr ''x'')]]"
         and fs = "[PStr ''keyword: a'']"
         and arguments = "[(''keyword'', PStr ''a'')]" and L = plain_ascii
         and tcp_client = "\<lambda>m p. Returns
         \<lparr>result = PDict
            [(''warning'', PStr ''Log truncated''),
             (''total_lines_in_file'', PInt 120),
             (''filtered_count'', PInt 2),
             (''filters_applied'', PList [PStr ''keyword: a'']),
             (''lines'', PList
                [PDict [(''line_number'', PInt 12), (''timestamp'', PStr ''12:00:01''),
                        (''content'', PStr ''hi'')],
                 PDict [(''line_number'', PInt 13), (''content'', PStr ''x'')]])],
          error = None\<rparr>"]
    capture_logs_report_layout
      [where response = "\<lparr>result = PDict [(''total_lines_in_file'', PInt 7)], error = None\<rparr>"
         and r = "[(''total_lines_in_file'', PInt 7)]" and ls = "[]" and fs = "[]"
         and arguments = "[]" and L = plain_ascii
         and tcp_client = "\<lambda>m p. Returns \<lparr>result = PDict [(''total_lines_in_file'', PInt 7)],
                                              error = None\<rparr>"]
  by (simp add: dict_get_def show_int_def show_nat_digit show_nat_step digit_char_def)

text \<open>
  The claim as it was stated holds for every result that is a dictionary and has the
  warning line whenever the \<^verbatim>\<open>warning\<close> entry is present. With \<^verbatim>\<open>"lines": null\<close> the
  call \<^verbatim>\<open>len(lines)\<close> raises and the handler returns the text of the exception, with no
  summary. With \<^verbatim>\<open>"warning": ""\<close> the entry is present and the text starts with the
  summary.
\<close>

theorem capture_logs_report_counterexample:
  "returned (handle_s1_capture_logs plain_ascii []
      (\<lambda>m p. Returns \<lparr>result = PDict [(''lines'', PNone)], error = None\<rparr>))
     = [TextContent ''text''
          (''Error: object of type '' @ squote @ ''NoneType'' @ squote @ '' has no len()'')]
   \<and> map_of [(''warning'', PStr []), (''lines'', PList [])] ''warning'' = Some (PStr [])
   \<and> returned (handle_s1_capture_logs plain_ascii []
      (\<lambda>m p. Returns \<lparr>result = PDict [(''warning'', PStr []), (''lines'', PList [])],
                        error = None\<rparr>))
     = [TextContent ''text'' (join newline
          [bar_chart @ '' Log Summary:'',
           ''  '' @ bullet @ '' Total lines in file: 0'',
           ''  '' @ bullet @ '' Lines after filtering: 0'',
           ''  '' @ bullet @ '' Lines returned: 0'',
           newline @ ''(No log lines matched the filters)''])]"
  by (simp add: handle_s1_capture_logs_def capture_logs_blocks_def capture_logs_report_def
        returned_try_except Let_def dict_get_def show_int_def show_nat_digit digit_char_def)

end
